theory Spec2Isabelle
  imports Main "HOL-Library.Multiset" "HOL-Library.Sublist"
begin

section \<open>BeliLite: the request handlers of server.js\<close>

text \<open>
  The server keeps one SQLite table of notes and answers six routes. Each handler is
  modelled as a function from the state of the table and the handler's inputs to the new
  state and the HTTP response. What the handler cannot control is an explicit input:
  the error (if any) that the store reports for a statement, the store's clock
  (\<open>CURRENT_TIMESTAMP\<close>, whole seconds), the JavaScript clock (\<open>new Date()\<close>,
  milliseconds), the process environment and the answer of the upstream API.
  A handler runs its statements without interleaving with another request.
\<close>

subsection \<open>JavaScript values of the request body\<close>

text \<open>
  A property of the JSON body (\<open>title\<close>, \<open>content\<close>, \<open>text\<close>) is a string or is
  absent, as the Note data model has it: \<open>None\<close> is \<open>undefined\<close> (or \<open>null\<close>, which
  the handlers treat alike).
  \<open>falsy v\<close> is the test \<open>!v\<close>, and \<open>or_else v dflt\<close> is \<open>v || dflt\<close> for a string
  \<open>dflt\<close>.
\<close>

definition falsy :: "string option \<Rightarrow> bool" where
  "falsy v = (case v of None \<Rightarrow> True | Some s \<Rightarrow> s = [])"

definition or_else :: "string option \<Rightarrow> string \<Rightarrow> string" where
  "or_else v dflt = (case v of None \<Rightarrow> dflt | Some s \<Rightarrow> (if s = [] then dflt else s))"

subsection \<open>The notes table\<close>

text \<open>
  \<open>CREATE TABLE notes (id INTEGER PRIMARY KEY AUTOINCREMENT, title TEXT NOT NULL,
  content TEXT, created_at DATETIME DEFAULT CURRENT_TIMESTAMP, updated_at DATETIME
  DEFAULT CURRENT_TIMESTAMP)\<close>.
  A row holds a title that is never NULL and a content that may be NULL. The two
  timestamps are only ever written by \<open>CURRENT_TIMESTAMP\<close>, the text
  \<open>YYYY-MM-DD HH:MM:SS\<close> in UTC; it is modelled by the number of the second it names,
  and the order of the texts is the order of these numbers.
  The table is the list of its rows in rowid order; \<open>seq\<close> is the largest id that
  AUTOINCREMENT has handed out (the entry of \<open>sqlite_sequence\<close>).
\<close>

record note_row =
  note_id :: nat
  note_title :: string
  note_content :: "string option"
  created_at :: nat
  updated_at :: nat

record db =
  rows :: "note_row list"
  seq :: nat

definition empty_db :: db where
  "empty_db = \<lparr>rows = [], seq = 0\<rparr>"

text \<open>AUTOINCREMENT: one more than the largest id ever used in the table.\<close>

definition next_id :: "db \<Rightarrow> nat" where
  "next_id d = Suc (foldr max (map note_id (rows d)) (seq d))"

text \<open>
  Every statement takes \<open>fault\<close>, the error message the store reports for it
  (\<open>None\<close> when the statement runs), and returns the error (\<open>Inl\<close>) or its result.
  A bound parameter is a text or NULL (\<open>None\<close>).
\<close>

text \<open>\<open>INSERT INTO notes (title, content) VALUES (?, ?)\<close>; the result carries \<open>lastID\<close>.\<close>

definition sql_insert ::
  "string option \<Rightarrow> nat \<Rightarrow> db \<Rightarrow> string option \<Rightarrow> string option \<Rightarrow> string + (db \<times> nat)" where
  "sql_insert fault now d title content =
     (case fault of
        Some e \<Rightarrow> Inl e
      | None \<Rightarrow>
          (case title of
             None \<Rightarrow> Inl ''SQLITE_CONSTRAINT: NOT NULL constraint failed: notes.title''
           | Some t \<Rightarrow>
               Inr (\<lparr>rows = rows d @
                        [\<lparr>note_id = next_id d, note_title = t, note_content = content,
                          created_at = now, updated_at = now\<rparr>],
                      seq = next_id d\<rparr>,
                    next_id d)))"

text \<open>
  \<open>UPDATE notes SET title = ?, content = ?, updated_at = CURRENT_TIMESTAMP WHERE id = ?\<close>;
  the result carries \<open>changes\<close>, the number of rows the statement touched.
\<close>

definition sql_update ::
  "string option \<Rightarrow> nat \<Rightarrow> db \<Rightarrow> string option \<Rightarrow> string option \<Rightarrow> nat \<Rightarrow> string + (db \<times> nat)" where
  "sql_update fault now d title content id_param =
     (case fault of
        Some e \<Rightarrow> Inl e
      | None \<Rightarrow>
          (case title of
             None \<Rightarrow>
               (if length (filter (\<lambda>r. note_id r = id_param) (rows d)) = 0
                then Inr (d, 0)
                else Inl ''SQLITE_CONSTRAINT: NOT NULL constraint failed: notes.title'')
           | Some t \<Rightarrow>
               Inr (d\<lparr>rows :=
                        map (\<lambda>r. if note_id r = id_param
                                  then r\<lparr>note_title := t, note_content := content,
                                         updated_at := now\<rparr>
                                  else r) (rows d)\<rparr>,
                    length (filter (\<lambda>r. note_id r = id_param) (rows d)))))"

text \<open>\<open>DELETE FROM notes WHERE id = ?\<close>; the result carries \<open>changes\<close>.\<close>

definition sql_delete :: "string option \<Rightarrow> db \<Rightarrow> nat \<Rightarrow> string + (db \<times> nat)" where
  "sql_delete fault d id_param =
     (case fault of
        Some e \<Rightarrow> Inl e
      | None \<Rightarrow>
          Inr (d\<lparr>rows := filter (\<lambda>r. note_id r \<noteq> id_param) (rows d)\<rparr>,
               length (filter (\<lambda>r. note_id r = id_param) (rows d))))"

text \<open>\<open>SELECT * FROM notes WHERE id = ?\<close> through \<open>db.get\<close>: the first row, or none.\<close>

definition sql_get :: "string option \<Rightarrow> db \<Rightarrow> nat \<Rightarrow> string + note_row option" where
  "sql_get fault d id_param =
     (case fault of
        Some e \<Rightarrow> Inl e
      | None \<Rightarrow> Inr (find (\<lambda>r. note_id r = id_param) (rows d)))"

text \<open>
  \<open>SELECT * FROM notes ORDER BY updated_at DESC\<close> through \<open>db.all\<close>. The statement
  fixes the rows and their order by \<open>updated_at\<close>, and leaves open the order of rows
  with the same \<open>updated_at\<close>: \<open>sql_all fault d result\<close> holds when \<open>result\<close> is one of
  the results the statement may give.
\<close>

definition order_by_updated_at_desc :: "note_row list \<Rightarrow> bool" where
  "order_by_updated_at_desc rs = sorted_wrt (\<lambda>a b. updated_at b \<le> updated_at a) rs"

definition sql_all :: "string option \<Rightarrow> db \<Rightarrow> string + note_row list \<Rightarrow> bool" where
  "sql_all fault d result =
     (case fault of
        Some e \<Rightarrow> result = Inl e
      | None \<Rightarrow>
          (case result of
             Inl e \<Rightarrow> False
           | Inr rs \<Rightarrow> mset rs = mset (rows d) \<and> order_by_updated_at_desc rs))"

text \<open>One such result: a stable sort, rows of equal \<open>updated_at\<close> in rowid order.\<close>

definition all_notes_sorted :: "db \<Rightarrow> note_row list" where
  "all_notes_sorted d = rev (sort_key updated_at (rev (rows d)))"

subsection \<open>Responses\<close>

text \<open>
  A timestamp of a response is a text in one of two formats: \<open>Sql_time s\<close> is
  \<open>YYYY-MM-DD HH:MM:SS\<close> as the store writes second \<open>s\<close>, and \<open>Iso_time ms\<close> is
  \<open>YYYY-MM-DDTHH:MM:SS.sssZ\<close> as \<open>Date.prototype.toISOString\<close> writes millisecond
  \<open>ms\<close>.
\<close>

datatype timestamp = Sql_time nat | Iso_time nat

record note_json =
  j_id :: nat
  j_title :: "string option"
  j_content :: "string option"
  j_created_at :: timestamp
  j_updated_at :: timestamp

text \<open>The row as \<open>res.json(row)\<close> sends it; a NULL column is \<open>None\<close>.\<close>

definition row_json :: "note_row \<Rightarrow> note_json" where
  "row_json r =
     \<lparr>j_id = note_id r, j_title = Some (note_title r), j_content = note_content r,
      j_created_at = Sql_time (created_at r), j_updated_at = Sql_time (updated_at r)\<rparr>"

datatype body =
    Error_body string "string option"
  | Note_body note_json
  | Notes_body "note_json list"
  | No_body
  | Message_body string
  | Summary_body string

datatype response = Response nat body

fun status :: "response \<Rightarrow> nat" where
  "status (Response st b) = st"

subsection \<open>The note routes\<close>

text \<open>\<open>GET /api/notes\<close>: the callback of \<open>db.all\<close>.\<close>

definition get_notes :: "string + note_row list \<Rightarrow> response" where
  "get_notes result =
     (case result of
        Inl e \<Rightarrow> Response 500 (Error_body e None)
      | Inr rs \<Rightarrow> Response 200 (Notes_body (map row_json rs)))"

text \<open>\<open>GET /api/notes/:id\<close>.\<close>

definition get_note :: "string option \<Rightarrow> db \<Rightarrow> nat \<Rightarrow> response" where
  "get_note fault d id_param =
     (case sql_get fault d id_param of
        Inl e \<Rightarrow> Response 500 (Error_body e None)
      | Inr None \<Rightarrow> Response 404 (Error_body ''Note not found'' None)
      | Inr (Some row) \<Rightarrow> Response 200 (Note_body (row_json row)))"

text \<open>
  \<open>POST /api/notes\<close>. \<open>js_now1\<close> and \<open>js_now2\<close> are the two readings of
  \<open>new Date()\<close> in the response.
\<close>

definition post_notes ::
  "string option \<Rightarrow> nat \<Rightarrow> nat \<Rightarrow> nat \<Rightarrow> db \<Rightarrow> string option \<Rightarrow> string option \<Rightarrow> db \<times> response" where
  "post_notes fault now js_now1 js_now2 d title content =
     (if falsy title then (d, Response 400 (Error_body ''Title is required'' None))
      else
        (case sql_insert fault now d title (Some (or_else content [])) of
           Inl e \<Rightarrow> (d, Response 500 (Error_body e None))
         | Inr (d', lastID) \<Rightarrow>
             (d', Response 200 (Note_body
                    \<lparr>j_id = lastID, j_title = title, j_content = Some (or_else content []),
                     j_created_at = Iso_time js_now1, j_updated_at = Iso_time js_now2\<rparr>))))"

text \<open>
  \<open>PUT /api/notes/:id\<close>. \<open>fault1\<close> is for the UPDATE and \<open>fault2\<close> for the SELECT
  that reads the row back.
\<close>

definition put_note ::
  "string option \<Rightarrow> string option \<Rightarrow> nat \<Rightarrow> db \<Rightarrow> nat \<Rightarrow> string option \<Rightarrow> string option
     \<Rightarrow> db \<times> response" where
  "put_note fault1 fault2 now d id_param title content =
     (if falsy title then (d, Response 400 (Error_body ''Title is required'' None))
      else
        (case sql_update fault1 now d title (Some (or_else content [])) id_param of
           Inl e \<Rightarrow> (d, Response 500 (Error_body e None))
         | Inr (d', changes) \<Rightarrow>
             (if changes = 0 then (d', Response 404 (Error_body ''Note not found'' None))
              else
                (case sql_get fault2 d' id_param of
                   Inl e \<Rightarrow> (d', Response 500 (Error_body e None))
                 | Inr None \<Rightarrow> (d', Response 200 No_body)
                 | Inr (Some row) \<Rightarrow> (d', Response 200 (Note_body (row_json row)))))))"

text \<open>\<open>DELETE /api/notes/:id\<close>.\<close>

definition delete_note :: "string option \<Rightarrow> db \<Rightarrow> nat \<Rightarrow> db \<times> response" where
  "delete_note fault d id_param =
     (case sql_delete fault d id_param of
        Inl e \<Rightarrow> (d, Response 500 (Error_body e None))
      | Inr (d', changes) \<Rightarrow>
          (if changes = 0 then (d', Response 404 (Error_body ''Note not found'' None))
           else (d', Response 200 (Message_body ''Note deleted successfully''))))"

subsection \<open>Sequences of requests\<close>

text \<open>
  A request to a note route, and the inputs of one request that the handler does not
  choose. \<open>next_db\<close> is the table after the request: the two GET routes run a SELECT
  only and leave the table as it is.
\<close>

datatype request =
    List_notes
  | Get_note nat
  | Create_note "string option" "string option"
  | Update_note nat "string option" "string option"
  | Delete_note nat

record env =
  env_fault1 :: "string option"
  env_fault2 :: "string option"
  env_now :: nat
  env_js_now1 :: nat
  env_js_now2 :: nat

fun next_db :: "env \<Rightarrow> request \<Rightarrow> db \<Rightarrow> db" where
  "next_db e List_notes d = d"
| "next_db e (Get_note id_param) d = d"
| "next_db e (Create_note title content) d =
     fst (post_notes (env_fault1 e) (env_now e) (env_js_now1 e) (env_js_now2 e) d title content)"
| "next_db e (Update_note id_param title content) d =
     fst (put_note (env_fault1 e) (env_fault2 e) (env_now e) d id_param title content)"
| "next_db e (Delete_note id_param) d = fst (delete_note (env_fault1 e) d id_param)"

fun run :: "(env \<times> request) list \<Rightarrow> db \<Rightarrow> db" where
  "run [] d = d"
| "run ((e, rq) # rest) d = run rest (next_db e rq d)"

definition titles_nonempty :: "db \<Rightarrow> bool" where
  "titles_nonempty d = (\<forall>r \<in> set (rows d). note_title r \<noteq> [])"

subsection \<open>Strings\<close>

text \<open>
  A string is a list of characters with codes below 256. \<open>is_space\<close> holds for the
  characters among them that \<open>String.prototype.trim\<close> strips (tab, line feed, vertical
  tab, form feed, carriage return, space, no-break space); \<open>string_includes s sub\<close> is
  \<open>s.includes(sub)\<close>; \<open>show_nat n\<close> is the decimal text of \<open>n\<close> in a template
  literal.
\<close>

definition is_space :: "char \<Rightarrow> bool" where
  "is_space c = ((of_char c :: nat) \<in> set [9, 10, 11, 12, 13, 32, 160])"

definition trim :: "string \<Rightarrow> string" where
  "trim s = rev (dropWhile is_space (rev (dropWhile is_space s)))"

fun starts_with :: "string \<Rightarrow> string \<Rightarrow> bool" where
  "starts_with s [] = True"
| "starts_with [] (p # ps) = False"
| "starts_with (c # cs) (p # ps) = (c = p \<and> starts_with cs ps)"

fun string_includes :: "string \<Rightarrow> string \<Rightarrow> bool" where
  "string_includes [] sub = (sub = [])"
| "string_includes (c # cs) sub = (starts_with (c # cs) sub \<or> string_includes cs sub)"

function show_nat :: "nat \<Rightarrow> string" where
  "show_nat n =
     (if n < 10 then [char_of (48 + n)]
      else show_nat (n div 10) @ [char_of (48 + n mod 10)])"
  by pat_completeness auto
termination
  by (relation "measure (\<lambda>n. n)") auto

declare show_nat.simps [simp del]

subsection \<open>The summarize route\<close>

text \<open>
  The process environment: \<open>process.env.XAI_API_URL\<close>, \<open>process.env.XAI_API_KEY\<close>
  and \<open>process.env.NODE_ENV\<close>, each a string or unset.
\<close>

record config =
  env_XAI_API_URL :: "string option"
  env_XAI_API_KEY :: "string option"
  env_NODE_ENV :: "string option"

definition XAI_API_URL :: "config \<Rightarrow> string" where
  "XAI_API_URL cfg = or_else (env_XAI_API_URL cfg) ''https://api.x.ai/v1/chat/completions''"

definition XAI_API_KEY :: "config \<Rightarrow> string option" where
  "XAI_API_KEY cfg = env_XAI_API_KEY cfg"

text \<open>
  The outbound request of \<open>fetch\<close> (the method is POST, the content type JSON and the
  temperature 0.7 in every request).
\<close>

record fetch_request =
  fetch_url :: string
  authorization :: string
  model :: string
  system_content :: string
  user_content :: string
  max_tokens :: nat
  stream :: bool

text \<open>
  What the upstream API does with the request, as far as the handler looks at it:
  \<^item> \<open>Fetch_rejected m\<close>: \<open>fetch\<close> throws an error with message \<open>m\<close> (no connection);
  \<^item> \<open>Not_ok st b\<close>: a response with \<open>response.ok\<close> false, status \<open>st\<close> and the
    parsed body \<open>b\<close> (\<open>errorData\<close>). \<open>Json_null\<close> is a body that parses to
    \<open>null\<close>. \<open>Json_other ed\<close> is any other body, of which the handler reads the texts
    at \<open>error.message\<close> and \<open>message\<close>; both are absent when the body has none or is
    not JSON, which the handler replaces by \<open>{}\<close> (a value there that is not a string
    counts as the text \<open>new Error\<close> makes of it, and as absent when it is falsy);
  \<^item> \<open>Ok_content c\<close>: a response with \<open>response.ok\<close> true whose body has the text
    \<open>c\<close> at \<open>choices[0].message.content\<close>;
  \<^item> \<open>Ok_throws m\<close>: a response with \<open>response.ok\<close> true for which parsing the body
    or reading that path throws an error with message \<open>m\<close>.
\<close>

record error_data =
  data_error_message :: "string option"
  data_message :: "string option"

datatype error_json = Json_null | Json_other error_data

datatype upstream =
    Fetch_rejected string
  | Not_ok nat error_json
  | Ok_content string
  | Ok_throws string

text \<open>An upstream API that gives the same answer to every request.\<close>

definition upstream_always :: "upstream \<Rightarrow> fetch_request \<Rightarrow> upstream" where
  "upstream_always answer rq = answer"

text \<open>
  The message of the TypeError that Node throws for \<open>errorData.error\<close> when
  \<open>errorData\<close> is \<open>null\<close>.
\<close>

definition null_error_message :: string where
  "null_error_message =
     ''Cannot read properties of null (reading '' @ [CHR 0x27] @ ''error'' @ [CHR 0x27] @ '')''"

definition summarize_request :: "config \<Rightarrow> string \<Rightarrow> string \<Rightarrow> fetch_request" where
  "summarize_request cfg key text =
     \<lparr>fetch_url = XAI_API_URL cfg,
      authorization = ''Bearer '' @ key,
      model = ''grok-3'',
      system_content = ''You are a helpful assistant that creates concise, clear summaries of text. Summarize the given text in 2-3 sentences, capturing the main points.'',
      user_content = ''Please summarize the following text:'' @ [CHR 0x0A, CHR 0x0A] @ text,
      max_tokens = 150,
      stream = False\<rparr>"

text \<open>
  The body of the \<open>try\<close> block after \<open>fetch\<close>: the summary (\<open>Inr\<close>), or the message
  of the error it throws (\<open>Inl\<close>).
\<close>

definition summarize_try :: "upstream \<Rightarrow> string + string" where
  "summarize_try answer =
     (case answer of
        Fetch_rejected m \<Rightarrow> Inl m
      | Not_ok st b \<Rightarrow>
          (case b of
             Json_null \<Rightarrow> Inl null_error_message
           | Json_other ed \<Rightarrow>
               Inl (or_else (data_error_message ed)
                      (or_else (data_message ed) (''API returned status '' @ show_nat st))))
      | Ok_content c \<Rightarrow> Inr (trim c)
      | Ok_throws m \<Rightarrow> Inl m)"

text \<open>The \<open>catch\<close> block, on the message of the error.\<close>

definition summarize_catch :: "config \<Rightarrow> string \<Rightarrow> response" where
  "summarize_catch cfg m =
     (if string_includes m ''401'' \<or> string_includes m ''Unauthorized''
      then Response 401 (Error_body ''Invalid xAI API key'' None)
      else if string_includes m ''429'' \<or> string_includes m ''rate limit''
      then Response 429 (Error_body ''xAI API rate limit exceeded. Please try again later.'' None)
      else Response 500 (Error_body ''Failed to summarize text. Please try again.''
             (if env_NODE_ENV cfg = Some ''development'' then Some m else None)))"

text \<open>
  \<open>POST /api/summarize\<close>. \<open>fetch\<close> is the upstream API; the result is the response
  together with the outbound requests the handler has made.
\<close>

definition summarize ::
  "config \<Rightarrow> (fetch_request \<Rightarrow> upstream) \<Rightarrow> string option \<Rightarrow> response \<times> fetch_request list" where
  "summarize cfg fetch text =
     (case text of
        None \<Rightarrow> (Response 400 (Error_body ''Text is required for summarization'' None), [])
      | Some t \<Rightarrow>
          (if t = [] \<or> length (trim t) = 0
           then (Response 400 (Error_body ''Text is required for summarization'' None), [])
           else
             (case XAI_API_KEY cfg of
                None \<Rightarrow>
                  (Response 500 (Error_body
                     ''xAI API key not configured. Please set XAI_API_KEY in your .env file.''
                     None), [])
              | Some key \<Rightarrow>
                  (if key = []
                   then (Response 500 (Error_body
                     ''xAI API key not configured. Please set XAI_API_KEY in your .env file.''
                     None), [])
                   else
                     (case summarize_try (fetch (summarize_request cfg key t)) of
                        Inr summary \<Rightarrow>
                          (Response 200 (Summary_body summary), [summarize_request cfg key t])
                      | Inl m \<Rightarrow>
                          (summarize_catch cfg m, [summarize_request cfg key t]))))))"

section \<open>Properties of the note routes\<close>

subsection \<open>Auxiliary facts\<close>

lemma falsy_iff: "falsy v = (v = None \<or> v = Some [])"
  by (cases v) (simp_all add: falsy_def)

lemma or_else_empty: "or_else v [] = (case v of None \<Rightarrow> [] | Some s \<Rightarrow> s)"
  by (cases v) (simp_all add: or_else_def)

lemma foldr_max_ge: "\<forall>x \<in> set xs. x \<le> foldr max xs (n::nat)"
  by (induction xs) (auto simp: max.coboundedI2)

lemma next_id_fresh: "\<forall>r \<in> set (rows d). note_id r < next_id d"
  using foldr_max_ge [of "map note_id (rows d)" "seq d"]
  by (simp add: next_id_def less_Suc_eq_le)

lemma filter_id_none:
  "(\<forall>r \<in> set rs. note_id r \<noteq> i) \<Longrightarrow> filter (\<lambda>r. note_id r \<noteq> i) rs = rs"
  by (induction rs) auto

lemma filter_id_empty:
  "(filter (\<lambda>r. note_id r = i) rs = []) = (\<forall>r \<in> set rs. note_id r \<noteq> i)"
  by (induction rs) auto

lemma find_removed:
  "find (\<lambda>r. note_id r = i) (filter (\<lambda>r. note_id r \<noteq> i) rs) = None"
  by (induction rs) auto

lemma find_id_Some:
  "find (\<lambda>r. note_id r = i) rs = Some r \<Longrightarrow> r \<in> set rs \<and> note_id r = i"
  by (induction rs) (auto split: if_splits)

lemma map_update_none:
  "(\<forall>r \<in> set rs. note_id r \<noteq> i) \<Longrightarrow> map (\<lambda>r. if note_id r = i then f r else r) rs = rs"
  by (induction rs) auto

lemma find_map_update:
  "(\<And>r. note_id (f r) = note_id r) \<Longrightarrow>
   find (\<lambda>r. note_id r = i) (map (\<lambda>r. if note_id r = i then f r else r) rs) =
     map_option f (find (\<lambda>r. note_id r = i) rs)"
  by (induction rs) auto

text \<open>A Create with a title that passes the check, when the store reports no error.\<close>

lemma post_notes_inserts:
  "t \<noteq> [] \<Longrightarrow>
   post_notes None now js_first js_second d (Some t) content =
     (\<lparr>rows = rows d @
         [\<lparr>note_id = next_id d, note_title = t, note_content = Some (or_else content []),
           created_at = now, updated_at = now\<rparr>],
       seq = next_id d\<rparr>,
      Response 200 (Note_body
        \<lparr>j_id = next_id d, j_title = Some t, j_content = Some (or_else content []),
         j_created_at = Iso_time js_first, j_updated_at = Iso_time js_second\<rparr>))"
  by (simp add: post_notes_def falsy_iff sql_insert_def)

text \<open>An Update of a row that exists, when the store reports no error.\<close>

lemma put_note_found:
  assumes "t \<noteq> []" and "find (\<lambda>r. note_id r = i) (rows d) = Some r"
  shows "put_note None None now d i (Some t) content =
          (d\<lparr>rows :=
               map (\<lambda>r. if note_id r = i
                         then r\<lparr>note_title := t, note_content := Some (or_else content []),
                                updated_at := now\<rparr>
                         else r) (rows d)\<rparr>,
           Response 200 (Note_body (row_json
             (r\<lparr>note_title := t, note_content := Some (or_else content []),
                updated_at := now\<rparr>))))"
proof -
  let ?f = "\<lambda>r. r\<lparr>note_title := t, note_content := Some (or_else content []),
                updated_at := now\<rparr>"
  from assms have ex: "\<not> (\<forall>r \<in> set (rows d). note_id r \<noteq> i)"
    using find_id_Some by blast
  have "find (\<lambda>r. note_id r = i) (map (\<lambda>r. if note_id r = i then ?f r else r) (rows d))
      = Some (?f r)"
    using assms by (simp add: find_map_update)
  with assms ex show ?thesis
    by (simp add: put_note_def falsy_iff sql_update_def sql_get_def filter_id_empty)
qed

text \<open>What a 200 response with a note says about an Update.\<close>

lemma put_note_success:
  assumes "put_note fault_update fault_select now d i title content = (d', Response 200 (Note_body j))"
  shows "\<exists>t r. title = Some t \<and> t \<noteq> [] \<and> find (\<lambda>r. note_id r = i) (rows d) = Some r
           \<and> d' = d\<lparr>rows := map (\<lambda>r. if note_id r = i
                         then r\<lparr>note_title := t, note_content := Some (or_else content []),
                                updated_at := now\<rparr>
                         else r) (rows d)\<rparr>
           \<and> j = row_json (r\<lparr>note_title := t, note_content := Some (or_else content []),
                                updated_at := now\<rparr>)"
proof -
  from assms obtain t where t: "title = Some t" "t \<noteq> []"
    by (cases title) (auto simp: put_note_def falsy_def split: if_splits)
  let ?f = "\<lambda>r. r\<lparr>note_title := t, note_content := Some (or_else content []),
                updated_at := now\<rparr>"
  let ?d = "d\<lparr>rows := map (\<lambda>r. if note_id r = i then ?f r else r) (rows d)\<rparr>"
  have fnd: "find (\<lambda>r. note_id r = i) (rows ?d) =
      map_option ?f (find (\<lambda>r. note_id r = i) (rows d))"
    by (simp add: find_map_update)
  from assms t have f1: "fault_update = None"
    by (cases fault_update) (auto simp: put_note_def falsy_def sql_update_def)
  from assms t f1 have d': "d' = ?d"
    by (auto simp: put_note_def falsy_def sql_update_def
        split: if_splits sum.splits option.splits)
  from assms t f1 have f2: "fault_select = None"
    by (cases fault_select)
      (auto simp: put_note_def falsy_def sql_update_def sql_get_def split: if_splits)
  from assms t f1 f2 obtain r' where
    r': "find (\<lambda>r. note_id r = i) (rows ?d) = Some r'" "j = row_json r'"
    by (auto simp: put_note_def falsy_def sql_update_def sql_get_def
        split: if_splits option.splits)
  from r'(1) fnd obtain r where "find (\<lambda>r. note_id r = i) (rows d) = Some r" "r' = ?f r"
    by (cases "find (\<lambda>r. note_id r = i) (rows d)") auto
  with t d' r' show ?thesis by blast
qed

text \<open>The stable sort is one of the results of the List statement.\<close>

lemma all_notes_sorted_admissible: "sql_all None d (Inr (all_notes_sorted d))"
proof -
  have "sorted (map updated_at (sort_key updated_at (rev (rows d))))"
    by simp
  then have "sorted_wrt (\<lambda>a b. updated_at a \<le> updated_at b)
               (sort_key updated_at (rev (rows d)))"
    by (simp only: sorted_map)
  then have "sorted_wrt (\<lambda>a b. updated_at b \<le> updated_at a)
               (rev (sort_key updated_at (rev (rows d))))"
    by (simp add: sorted_wrt_rev)
  then show ?thesis
    by (simp add: sql_all_def all_notes_sorted_def order_by_updated_at_desc_def)
qed

text \<open>In a descending list, an element strictly above all others is the first.\<close>

lemma newest_is_head:
  assumes srt: "sorted_wrt (\<lambda>a b. updated_at b \<le> updated_at a) rs"
    and n: "n \<in> set rs"
    and older: "\<forall>r \<in> set rs. r \<noteq> n \<longrightarrow> updated_at r < updated_at n"
  shows "rs \<noteq> [] \<and> hd rs = n"
proof (cases rs)
  case Nil
  with n show ?thesis by simp
next
  case (Cons x xs)
  show ?thesis
  proof (cases "x = n")
    case True
    with Cons show ?thesis by simp
  next
    case False
    with Cons older have lt: "updated_at x < updated_at n" by simp
    from False Cons n have "n \<in> set xs" by simp
    with srt Cons have "updated_at n \<le> updated_at x" by simp
    with lt show ?thesis by simp
  qed
qed

text \<open>Each handler that writes keeps the titles non-empty.\<close>

lemma titles_post:
  "titles_nonempty d \<Longrightarrow>
   titles_nonempty (fst (post_notes fault now js_first js_second d title content))"
  by (cases fault; cases title)
    (auto simp: titles_nonempty_def post_notes_def falsy_def sql_insert_def)

lemma titles_put:
  "titles_nonempty d \<Longrightarrow>
   titles_nonempty (fst (put_note fault_update fault_select now d i title content))"
  by (cases fault_update; cases fault_select; cases title)
    (auto simp: titles_nonempty_def put_note_def falsy_def sql_update_def sql_get_def
          split: option.splits)

lemma titles_delete:
  "titles_nonempty d \<Longrightarrow> titles_nonempty (fst (delete_note fault d i))"
  by (cases fault) (auto simp: titles_nonempty_def delete_note_def sql_delete_def)

lemma titles_next_db: "titles_nonempty d \<Longrightarrow> titles_nonempty (next_db e rq d)"
  by (cases rq) (simp_all add: titles_post titles_put titles_delete)

subsection \<open>Create\<close>

text \<open>
  What a Create does. With a title that is missing or empty it answers 400
  \<open>Title is required\<close> whatever the content is and whatever the store would do, and
  the table is unchanged. With any other title, when the store reports no error, it
  appends one row with a fresh id, the title as given, the content as given or the empty
  string when it is absent, and both timestamps at the store's current second; it answers
  200 with a record that carries the assigned id, the title, the stored content, and the
  handler's own two clock readings.
\<close>

lemma post_notes_create:
  "(title = None \<or> title = Some [] \<longrightarrow>
      post_notes fault now js_first js_second d title content =
        (d, Response 400 (Error_body ''Title is required'' None)))
   \<and> (t \<noteq> [] \<longrightarrow>
        post_notes None now js_first js_second d (Some t) content =
          (\<lparr>rows = rows d @
              [\<lparr>note_id = next_id d, note_title = t,
                note_content = Some (case content of None \<Rightarrow> [] | Some c \<Rightarrow> c),
                created_at = now, updated_at = now\<rparr>],
            seq = next_id d\<rparr>,
           Response 200 (Note_body
             \<lparr>j_id = next_id d, j_title = Some t,
              j_content = Some (case content of None \<Rightarrow> [] | Some c \<Rightarrow> c),
              j_created_at = Iso_time js_first, j_updated_at = Iso_time js_second\<rparr>))
        \<and> (\<forall>r \<in> set (rows d). note_id r \<noteq> next_id d))"
proof (intro conjI impI)
  assume "title = None \<or> title = Some []"
  then show "post_notes fault now js_first js_second d title content =
        (d, Response 400 (Error_body ''Title is required'' None))"
    by (simp add: post_notes_def falsy_iff)
next
  assume "t \<noteq> []"
  then show "post_notes None now js_first js_second d (Some t) content =
          (\<lparr>rows = rows d @
              [\<lparr>note_id = next_id d, note_title = t,
                note_content = Some (case content of None \<Rightarrow> [] | Some c \<Rightarrow> c),
                created_at = now, updated_at = now\<rparr>],
            seq = next_id d\<rparr>,
           Response 200 (Note_body
             \<lparr>j_id = next_id d, j_title = Some t,
              j_content = Some (case content of None \<Rightarrow> [] | Some c \<Rightarrow> c),
              j_created_at = Iso_time js_first, j_updated_at = Iso_time js_second\<rparr>))"
    by (simp add: post_notes_inserts or_else_empty)
next
  show "\<forall>r \<in> set (rows d). note_id r \<noteq> next_id d"
    using next_id_fresh [of d] by auto
qed

text \<open>
  C1. The claim: a Create with a missing or empty title fails with 400 whatever the
  content is and inserts nothing; any other Create inserts a note, with the empty string
  for an absent content, and the response is the full created record with its assigned
  id. The check, the insert, the default and the id are as claimed
  (\<open>post_notes_create\<close>). The response is not the created record: the handler does not
  read the row back, as the Update route does, but puts \<open>created_at\<close> and
  \<open>updated_at\<close> together from two readings of its own clock. Here a note
  \<open>Groceries\<close> with content \<open>milk\<close> is created in the empty table, the store's clock
  at second 100 and the handler's clock at 100250 and then 100251 milliseconds. The
  created row, which a Get of id 1 returns, has both timestamps \<open>Sql_time 100\<close>; the
  Create answered with \<open>Iso_time 100250\<close> and \<open>Iso_time 100251\<close>.
\<close>

theorem post_notes_response_not_created_record:
  "rows (fst (post_notes None 100 100250 100251 empty_db (Some ''Groceries'') (Some ''milk'')))
     = [\<lparr>note_id = 1, note_title = ''Groceries'', note_content = Some ''milk'',
          created_at = 100, updated_at = 100\<rparr>]
   \<and> get_note None
        (fst (post_notes None 100 100250 100251 empty_db (Some ''Groceries'') (Some ''milk''))) 1
     = Response 200 (Note_body
         \<lparr>j_id = 1, j_title = Some ''Groceries'', j_content = Some ''milk'',
          j_created_at = Sql_time 100, j_updated_at = Sql_time 100\<rparr>)
   \<and> snd (post_notes None 100 100250 100251 empty_db (Some ''Groceries'') (Some ''milk''))
     = Response 200 (Note_body
         \<lparr>j_id = 1, j_title = Some ''Groceries'', j_content = Some ''milk'',
          j_created_at = Iso_time 100250, j_updated_at = Iso_time 100251\<rparr>)
   \<and> snd (post_notes None 100 100250 100251 empty_db (Some ''Groceries'') (Some ''milk''))
     \<noteq> Response 200 (Note_body (row_json
         \<lparr>note_id = 1, note_title = ''Groceries'', note_content = Some ''milk'',
          created_at = 100, updated_at = 100\<rparr>))"
  by (simp add: post_notes_def falsy_def or_else_def sql_insert_def empty_db_def next_id_def
      get_note_def sql_get_def row_json_def)

subsection \<open>Update\<close>

text \<open>
  C2. An Update whose title is missing or empty answers 400 \<open>Title is required\<close> and
  leaves the table as it is. With any other title and no error from the store, an Update
  of an id that no row has answers 404 \<open>Note not found\<close> and leaves the table as it is;
  an Update of an id that a row has overwrites the title and the content of that row
  (the content is the empty string when absent), sets its \<open>updated_at\<close> to the store's
  current second, and answers 200 with the row as it is now stored.
\<close>

theorem put_note_update:
  "(title = None \<or> title = Some [] \<longrightarrow>
      put_note fault_update fault_select now d i title content =
        (d, Response 400 (Error_body ''Title is required'' None)))
   \<and> (t \<noteq> [] \<and> (\<forall>r \<in> set (rows d). note_id r \<noteq> i) \<longrightarrow>
        put_note None fault_select now d i (Some t) content =
          (d, Response 404 (Error_body ''Note not found'' None)))
   \<and> (t \<noteq> [] \<and> find (\<lambda>r. note_id r = i) (rows d) = Some r \<longrightarrow>
        put_note None None now d i (Some t) content =
          (d\<lparr>rows :=
               map (\<lambda>r. if note_id r = i
                         then r\<lparr>note_title := t,
                                note_content := Some (case content of None \<Rightarrow> [] | Some c \<Rightarrow> c),
                                updated_at := now\<rparr>
                         else r) (rows d)\<rparr>,
           Response 200 (Note_body (row_json
             (r\<lparr>note_title := t,
                note_content := Some (case content of None \<Rightarrow> [] | Some c \<Rightarrow> c),
                updated_at := now\<rparr>)))))"
proof (intro conjI impI)
  assume "title = None \<or> title = Some []"
  then show "put_note fault_update fault_select now d i title content =
        (d, Response 400 (Error_body ''Title is required'' None))"
    by (simp add: put_note_def falsy_iff)
next
  assume "t \<noteq> [] \<and> (\<forall>r \<in> set (rows d). note_id r \<noteq> i)"
  then show "put_note None fault_select now d i (Some t) content =
          (d, Response 404 (Error_body ''Note not found'' None))"
    by (simp add: put_note_def falsy_iff sql_update_def filter_id_empty map_update_none)
next
  assume "t \<noteq> [] \<and> find (\<lambda>r. note_id r = i) (rows d) = Some r"
  then show "put_note None None now d i (Some t) content =
          (d\<lparr>rows :=
               map (\<lambda>r. if note_id r = i
                         then r\<lparr>note_title := t,
                                note_content := Some (case content of None \<Rightarrow> [] | Some c \<Rightarrow> c),
                                updated_at := now\<rparr>
                         else r) (rows d)\<rparr>,
           Response 200 (Note_body (row_json
             (r\<lparr>note_title := t,
                note_content := Some (case content of None \<Rightarrow> [] | Some c \<Rightarrow> c),
                updated_at := now\<rparr>))))"
    using put_note_found [of t i d r now content] by (simp add: or_else_empty)
qed

theorem put_note_update_witness:
  "put_note None None 160
     \<lparr>rows = [\<lparr>note_id = 1, note_title = ''Groceries'', note_content = Some ''milk, eggs'',
               created_at = 100, updated_at = 100\<rparr>], seq = 1\<rparr>
     1 (Some []) (Some ''milk'')
   = (\<lparr>rows = [\<lparr>note_id = 1, note_title = ''Groceries'', note_content = Some ''milk, eggs'',
                created_at = 100, updated_at = 100\<rparr>], seq = 1\<rparr>,
      Response 400 (Error_body ''Title is required'' None))
   \<and> put_note None None 160
     \<lparr>rows = [\<lparr>note_id = 1, note_title = ''Groceries'', note_content = Some ''milk, eggs'',
               created_at = 100, updated_at = 100\<rparr>], seq = 1\<rparr>
     2 (Some ''Groceries v2'') (Some ''milk'')
   = (\<lparr>rows = [\<lparr>note_id = 1, note_title = ''Groceries'', note_content = Some ''milk, eggs'',
                created_at = 100, updated_at = 100\<rparr>], seq = 1\<rparr>,
      Response 404 (Error_body ''Note not found'' None))
   \<and> put_note None None 160
     \<lparr>rows = [\<lparr>note_id = 1, note_title = ''Groceries'', note_content = Some ''milk, eggs'',
               created_at = 100, updated_at = 100\<rparr>], seq = 1\<rparr>
     1 (Some ''Groceries v2'') (Some ''milk'')
   = (\<lparr>rows = [\<lparr>note_id = 1, note_title = ''Groceries v2'', note_content = Some ''milk'',
                created_at = 100, updated_at = 160\<rparr>], seq = 1\<rparr>,
      Response 200 (Note_body
        \<lparr>j_id = 1, j_title = Some ''Groceries v2'', j_content = Some ''milk'',
         j_created_at = Sql_time 100, j_updated_at = Sql_time 160\<rparr>))"
  using put_note_update [where title = "Some []" and fault_update = None
      and fault_select = None and now = 160
      and d = "\<lparr>rows = [\<lparr>note_id = 1, note_title = ''Groceries'',
                 note_content = Some ''milk, eggs'', created_at = 100, updated_at = 100\<rparr>],
               seq = 1\<rparr>"
      and i = 1 and content = "Some ''milk''" and t = "''Groceries v2''"
      and r = "\<lparr>note_id = 1, note_title = ''Groceries'',
                 note_content = Some ''milk, eggs'', created_at = 100, updated_at = 100\<rparr>"]
    put_note_update [where title = "Some []" and fault_update = None
      and fault_select = None and now = 160
      and d = "\<lparr>rows = [\<lparr>note_id = 1, note_title = ''Groceries'',
                 note_content = Some ''milk, eggs'', created_at = 100, updated_at = 100\<rparr>],
               seq = 1\<rparr>"
      and i = 2 and content = "Some ''milk''" and t = "''Groceries v2''"]
  by (simp add: row_json_def)

text \<open>
  C3, as amended. Every Update that answers 200 with a note found a row with the given
  id; afterwards that row has the same id and the same \<open>created_at\<close>, and its
  \<open>updated_at\<close> is the store's current second, which is what the response shows. So
  \<open>updated_at\<close> is at least \<open>created_at\<close> when the store's clock has not gone back
  behind the second of the creation, and it is equal to \<open>created_at\<close> when the Update
  runs within that second. No row of the table changes its id or its \<open>created_at\<close>.
\<close>

theorem put_note_keeps_id_and_created_at:
  assumes "put_note fault_update fault_select now d i title content =
             (d', Response 200 (Note_body j))"
  shows "\<exists>r r'. find (\<lambda>r. note_id r = i) (rows d) = Some r
           \<and> find (\<lambda>r. note_id r = i) (rows d') = Some r'
           \<and> j = row_json r'
           \<and> note_id r' = note_id r \<and> created_at r' = created_at r \<and> updated_at r' = now
           \<and> (created_at r \<le> now \<longrightarrow> created_at r' \<le> updated_at r')
           \<and> map note_id (rows d') = map note_id (rows d)
           \<and> map created_at (rows d') = map created_at (rows d)"
proof -
  from put_note_success [OF assms] obtain t r where
    r: "find (\<lambda>r. note_id r = i) (rows d) = Some r"
    and d': "d' = d\<lparr>rows := map (\<lambda>r. if note_id r = i
                         then r\<lparr>note_title := t, note_content := Some (or_else content []),
                                updated_at := now\<rparr>
                         else r) (rows d)\<rparr>"
    and j: "j = row_json (r\<lparr>note_title := t, note_content := Some (or_else content []),
                                updated_at := now\<rparr>)"
    by blast
  let ?f = "\<lambda>r. r\<lparr>note_title := t, note_content := Some (or_else content []),
                updated_at := now\<rparr>"
  have "find (\<lambda>r. note_id r = i) (rows d') = Some (?f r)"
    using r d' by (simp add: find_map_update)
  moreover have "map note_id (rows d') = map note_id (rows d)"
    unfolding d' by (induction "rows d") auto
  moreover have "map created_at (rows d') = map created_at (rows d)"
    unfolding d' by (induction "rows d") auto
  ultimately show ?thesis using r j by auto
qed

theorem put_note_keeps_id_and_created_at_witness:
  "put_note None None 160
     \<lparr>rows = [\<lparr>note_id = 1, note_title = ''Groceries'', note_content = Some ''milk, eggs'',
               created_at = 100, updated_at = 100\<rparr>], seq = 1\<rparr>
     1 (Some ''Groceries v2'') (Some ''milk'')
   = (\<lparr>rows = [\<lparr>note_id = 1, note_title = ''Groceries v2'', note_content = Some ''milk'',
                created_at = 100, updated_at = 160\<rparr>], seq = 1\<rparr>,
      Response 200 (Note_body
        \<lparr>j_id = 1, j_title = Some ''Groceries v2'', j_content = Some ''milk'',
         j_created_at = Sql_time 100, j_updated_at = Sql_time 160\<rparr>))
   \<and> map note_id
        [\<lparr>note_id = 1, note_title = ''Groceries v2'', note_content = Some ''milk'',
          created_at = 100, updated_at = 160\<rparr>]
     = map note_id
        [\<lparr>note_id = 1, note_title = ''Groceries'', note_content = Some ''milk, eggs'',
          created_at = 100, updated_at = 100\<rparr>]
   \<and> map created_at
        [\<lparr>note_id = 1, note_title = ''Groceries v2'', note_content = Some ''milk'',
          created_at = 100, updated_at = 160\<rparr>]
     = map created_at
        [\<lparr>note_id = 1, note_title = ''Groceries'', note_content = Some ''milk, eggs'',
          created_at = 100, updated_at = 100\<rparr>]
   \<and> (100::nat) \<le> 160"
proof -
  have run: "put_note None None 160
     \<lparr>rows = [\<lparr>note_id = 1, note_title = ''Groceries'', note_content = Some ''milk, eggs'',
               created_at = 100, updated_at = 100\<rparr>], seq = 1\<rparr>
     1 (Some ''Groceries v2'') (Some ''milk'')
   = (\<lparr>rows = [\<lparr>note_id = 1, note_title = ''Groceries v2'', note_content = Some ''milk'',
                created_at = 100, updated_at = 160\<rparr>], seq = 1\<rparr>,
      Response 200 (Note_body
        \<lparr>j_id = 1, j_title = Some ''Groceries v2'', j_content = Some ''milk'',
         j_created_at = Sql_time 100, j_updated_at = Sql_time 160\<rparr>))"
    by (simp add: put_note_def falsy_def or_else_def sql_update_def sql_get_def row_json_def)
  from put_note_keeps_id_and_created_at [OF run] show ?thesis
    using run by simp
qed

text \<open>
  The claim as stated fails: \<open>CURRENT_TIMESTAMP\<close> counts whole seconds, so an Update in
  the second of the Create leaves \<open>updated_at\<close> equal to \<open>created_at\<close>, not greater.
  Here a note is created at second 100 and updated at second 100.
\<close>

theorem put_note_same_second_counterexample:
  "put_note None None 100
     (fst (post_notes None 100 100250 100251 empty_db (Some ''Groceries'') None))
     1 (Some ''Groceries v2'') (Some ''milk'')
   = (\<lparr>rows = [\<lparr>note_id = 1, note_title = ''Groceries v2'', note_content = Some ''milk'',
                created_at = 100, updated_at = 100\<rparr>], seq = 1\<rparr>,
      Response 200 (Note_body
        \<lparr>j_id = 1, j_title = Some ''Groceries v2'', j_content = Some ''milk'',
         j_created_at = Sql_time 100, j_updated_at = Sql_time 100\<rparr>))
   \<and> \<not> created_at
          (hd (rows (fst (put_note None None 100
             (fst (post_notes None 100 100250 100251 empty_db (Some ''Groceries'') None))
             1 (Some ''Groceries v2'') (Some ''milk'')))))
        < updated_at
          (hd (rows (fst (put_note None None 100
             (fst (post_notes None 100 100250 100251 empty_db (Some ''Groceries'') None))
             1 (Some ''Groceries v2'') (Some ''milk'')))))"
  by (simp add: post_notes_def put_note_def falsy_def or_else_def sql_insert_def
      sql_update_def sql_get_def empty_db_def next_id_def row_json_def)

subsection \<open>Delete\<close>

text \<open>
  C4. When the store reports no error, a Delete of an id that no row has answers 404
  \<open>Note not found\<close> and leaves the table as it is, and a Delete of an id that a row has
  removes every row with that id, keeps the others, and answers 200 with the message
  \<open>Note deleted successfully\<close>. Whatever the store reports, a Delete of an id that no
  row has never answers 200. After any Delete that answered 200, a Get of the same id
  answers 404 \<open>Note not found\<close>.
\<close>

theorem delete_note_removes:
  "delete_note None d i =
     (if \<exists>r \<in> set (rows d). note_id r = i
      then (d\<lparr>rows := filter (\<lambda>r. note_id r \<noteq> i) (rows d)\<rparr>,
            Response 200 (Message_body ''Note deleted successfully''))
      else (d, Response 404 (Error_body ''Note not found'' None)))
   \<and> ((\<forall>r \<in> set (rows d). note_id r \<noteq> i) \<longrightarrow> status (snd (delete_note fault d i)) \<noteq> 200)
   \<and> (snd (delete_note fault d i) = Response 200 b \<longrightarrow>
        get_note None (fst (delete_note fault d i)) i =
          Response 404 (Error_body ''Note not found'' None))"
proof (intro conjI impI)
  show "delete_note None d i =
     (if \<exists>r \<in> set (rows d). note_id r = i
      then (d\<lparr>rows := filter (\<lambda>r. note_id r \<noteq> i) (rows d)\<rparr>,
            Response 200 (Message_body ''Note deleted successfully''))
      else (d, Response 404 (Error_body ''Note not found'' None)))"
    by (simp add: delete_note_def sql_delete_def filter_id_empty filter_id_none)
next
  assume "\<forall>r \<in> set (rows d). note_id r \<noteq> i"
  then show "status (snd (delete_note fault d i)) \<noteq> 200"
    by (cases fault) (simp_all add: delete_note_def sql_delete_def filter_id_empty)
next
  assume "snd (delete_note fault d i) = Response 200 b"
  then show "get_note None (fst (delete_note fault d i)) i =
          Response 404 (Error_body ''Note not found'' None)"
    by (cases fault)
      (auto simp: delete_note_def sql_delete_def get_note_def sql_get_def find_removed
            split: if_splits)
qed

theorem delete_note_removes_witness:
  "delete_note None
     \<lparr>rows = [\<lparr>note_id = 1, note_title = ''Groceries'', note_content = Some ''milk'',
               created_at = 100, updated_at = 160\<rparr>], seq = 1\<rparr> 1
   = (\<lparr>rows = [], seq = 1\<rparr>, Response 200 (Message_body ''Note deleted successfully''))
   \<and> get_note None
       (fst (delete_note None
          \<lparr>rows = [\<lparr>note_id = 1, note_title = ''Groceries'', note_content = Some ''milk'',
                    created_at = 100, updated_at = 160\<rparr>], seq = 1\<rparr> 1)) 1
     = Response 404 (Error_body ''Note not found'' None)
   \<and> delete_note None
     \<lparr>rows = [\<lparr>note_id = 1, note_title = ''Groceries'', note_content = Some ''milk'',
               created_at = 100, updated_at = 160\<rparr>], seq = 1\<rparr> 2
   = (\<lparr>rows = [\<lparr>note_id = 1, note_title = ''Groceries'', note_content = Some ''milk'',
                created_at = 100, updated_at = 160\<rparr>], seq = 1\<rparr>,
      Response 404 (Error_body ''Note not found'' None))
   \<and> status (snd (delete_note (Some ''disk I/O error'')
     \<lparr>rows = [\<lparr>note_id = 1, note_title = ''Groceries'', note_content = Some ''milk'',
               created_at = 100, updated_at = 160\<rparr>], seq = 1\<rparr> 2)) \<noteq> 200"
  using delete_note_removes [where fault = None and i = 1
      and b = "Message_body ''Note deleted successfully''"
      and d = "\<lparr>rows = [\<lparr>note_id = 1, note_title = ''Groceries'',
                 note_content = Some ''milk'', created_at = 100, updated_at = 160\<rparr>],
               seq = 1\<rparr>"]
    delete_note_removes [where fault = "Some ''disk I/O error''" and i = 2
      and d = "\<lparr>rows = [\<lparr>note_id = 1, note_title = ''Groceries'',
                 note_content = Some ''milk'', created_at = 100, updated_at = 160\<rparr>],
               seq = 1\<rparr>"]
  by (simp add: delete_note_def sql_delete_def get_note_def sql_get_def)

subsection \<open>List\<close>

text \<open>
  C5, as amended. When the store reports no error, every result of the List statement
  holds exactly the stored rows, in descending order of \<open>updated_at\<close>, and the handler
  answers 200 with these rows in that order; the statement has such a result for every
  table. After a Create at a second that is later than the \<open>updated_at\<close> of every
  stored row, the new note is the first of every List result. (Rows of the same
  \<open>updated_at\<close>, a second long, may come in either order.)
\<close>

theorem get_notes_sorted_newest_first:
  "(sql_all None d result \<longrightarrow>
      (\<exists>rs. result = Inr rs
         \<and> get_notes result = Response 200 (Notes_body (map row_json rs))
         \<and> mset rs = mset (rows d)
         \<and> sorted_wrt (\<lambda>a b. updated_at b \<le> updated_at a) rs))
   \<and> sql_all None d (Inr (all_notes_sorted d))
   \<and> (t \<noteq> [] \<and> (\<forall>r \<in> set (rows d). updated_at r < now)
        \<and> sql_all None (fst (post_notes None now js_first js_second d (Some t) content))
             (Inr rs')
      \<longrightarrow> rs' \<noteq> []
          \<and> hd rs' = \<lparr>note_id = next_id d, note_title = t,
                       note_content = Some (case content of None \<Rightarrow> [] | Some c \<Rightarrow> c),
                       created_at = now, updated_at = now\<rparr>)"
proof (intro conjI impI)
  assume "sql_all None d result"
  then show "\<exists>rs. result = Inr rs
         \<and> get_notes result = Response 200 (Notes_body (map row_json rs))
         \<and> mset rs = mset (rows d)
         \<and> sorted_wrt (\<lambda>a b. updated_at b \<le> updated_at a) rs"
    by (cases result) (simp_all add: sql_all_def get_notes_def order_by_updated_at_desc_def)
next
  show "sql_all None d (Inr (all_notes_sorted d))"
    by (rule all_notes_sorted_admissible)
next
  let ?n = "\<lparr>note_id = next_id d, note_title = t,
             note_content = Some (case content of None \<Rightarrow> [] | Some c \<Rightarrow> c),
             created_at = now, updated_at = now\<rparr>"
  assume a: "t \<noteq> [] \<and> (\<forall>r \<in> set (rows d). updated_at r < now)
        \<and> sql_all None (fst (post_notes None now js_first js_second d (Some t) content))
             (Inr rs')"
  then have m: "mset rs' = mset (rows d @ [?n])"
    and srt: "sorted_wrt (\<lambda>a b. updated_at b \<le> updated_at a) rs'"
    by (simp_all add: post_notes_inserts sql_all_def order_by_updated_at_desc_def
        or_else_empty)
  from m have s: "set rs' = set (rows d @ [?n])"
    by (rule mset_eq_setD)
  then have "?n \<in> set rs'" by simp
  moreover from s a have "\<forall>r \<in> set rs'. r \<noteq> ?n \<longrightarrow> updated_at r < updated_at ?n"
    by auto
  ultimately have "rs' \<noteq> [] \<and> hd rs' = ?n"
    using srt by (intro newest_is_head)
  then show "rs' \<noteq> []" and "hd rs' = ?n" by simp_all
qed

theorem get_notes_sorted_newest_first_witness:
  "sql_all None
     \<lparr>rows = [\<lparr>note_id = 1, note_title = ''Groceries'', note_content = Some [],
               created_at = 100, updated_at = 100\<rparr>], seq = 1\<rparr>
     (Inr [\<lparr>note_id = 1, note_title = ''Groceries'', note_content = Some [],
            created_at = 100, updated_at = 100\<rparr>])
   \<and> get_notes
       (Inr [\<lparr>note_id = 1, note_title = ''Groceries'', note_content = Some [],
              created_at = 100, updated_at = 100\<rparr>])
     = Response 200 (Notes_body
         [\<lparr>j_id = 1, j_title = Some ''Groceries'', j_content = Some [],
           j_created_at = Sql_time 100, j_updated_at = Sql_time 100\<rparr>])
   \<and> ''Chores'' \<noteq> []
   \<and> updated_at \<lparr>note_id = 1, note_title = ''Groceries'', note_content = Some [],
               created_at = 100, updated_at = 100\<rparr> < 101
   \<and> sql_all None
       (fst (post_notes None 101 101250 101251
          \<lparr>rows = [\<lparr>note_id = 1, note_title = ''Groceries'', note_content = Some [],
                    created_at = 100, updated_at = 100\<rparr>], seq = 1\<rparr>
          (Some ''Chores'') None))
       (Inr [\<lparr>note_id = 2, note_title = ''Chores'', note_content = Some [],
              created_at = 101, updated_at = 101\<rparr>,
             \<lparr>note_id = 1, note_title = ''Groceries'', note_content = Some [],
              created_at = 100, updated_at = 100\<rparr>])
   \<and> hd [\<lparr>note_id = 2, note_title = ''Chores'', note_content = Some [],
              created_at = 101, updated_at = 101\<rparr>,
             \<lparr>note_id = 1, note_title = ''Groceries'', note_content = Some [],
              created_at = 100, updated_at = 100\<rparr>]
     = \<lparr>note_id = next_id
           \<lparr>rows = [\<lparr>note_id = 1, note_title = ''Groceries'', note_content = Some [],
                    created_at = 100, updated_at = 100\<rparr>], seq = 1\<rparr>,
        note_title = ''Chores'', note_content = Some [],
        created_at = 101, updated_at = 101\<rparr>"
proof -
  have adm1: "sql_all None
     \<lparr>rows = [\<lparr>note_id = 1, note_title = ''Groceries'', note_content = Some [],
               created_at = 100, updated_at = 100\<rparr>], seq = 1\<rparr>
     (Inr [\<lparr>note_id = 1, note_title = ''Groceries'', note_content = Some [],
            created_at = 100, updated_at = 100\<rparr>])"
    by (simp add: sql_all_def order_by_updated_at_desc_def)
  have adm2: "sql_all None
       (fst (post_notes None 101 101250 101251
          \<lparr>rows = [\<lparr>note_id = 1, note_title = ''Groceries'', note_content = Some [],
                    created_at = 100, updated_at = 100\<rparr>], seq = 1\<rparr>
          (Some ''Chores'') None))
       (Inr [\<lparr>note_id = 2, note_title = ''Chores'', note_content = Some [],
              created_at = 101, updated_at = 101\<rparr>,
             \<lparr>note_id = 1, note_title = ''Groceries'', note_content = Some [],
              created_at = 100, updated_at = 100\<rparr>])"
    by (simp add: sql_all_def order_by_updated_at_desc_def post_notes_def falsy_def
        or_else_def sql_insert_def next_id_def)
  from adm1 adm2
    get_notes_sorted_newest_first [where now = 101 and js_first = 101250
      and js_second = 101251 and t = "''Chores''" and content = None
      and d = "\<lparr>rows = [\<lparr>note_id = 1, note_title = ''Groceries'', note_content = Some [],
                    created_at = 100, updated_at = 100\<rparr>], seq = 1\<rparr>"
      and result = "Inr [\<lparr>note_id = 1, note_title = ''Groceries'', note_content = Some [],
            created_at = 100, updated_at = 100\<rparr>]"
      and rs' = "[\<lparr>note_id = 2, note_title = ''Chores'', note_content = Some [],
              created_at = 101, updated_at = 101\<rparr>,
             \<lparr>note_id = 1, note_title = ''Groceries'', note_content = Some [],
              created_at = 100, updated_at = 100\<rparr>]"]
  show ?thesis
    by (simp add: row_json_def)
qed

text \<open>
  The claim as stated fails: a newly inserted note does not always come first. Two notes
  are created within second 100. The List statement then may give the older note first,
  as the stable sort does, and the handler answers with the new note (id 2) in the second
  place.
\<close>

theorem get_notes_same_second_counterexample:
  "snd (post_notes None 100 100700 100701
          (fst (post_notes None 100 100250 100251 empty_db (Some ''Groceries'') None))
          (Some ''Chores'') None)
     = Response 200 (Note_body
         \<lparr>j_id = 2, j_title = Some ''Chores'', j_content = Some [],
          j_created_at = Iso_time 100700, j_updated_at = Iso_time 100701\<rparr>)
   \<and> sql_all None
       (fst (post_notes None 100 100700 100701
          (fst (post_notes None 100 100250 100251 empty_db (Some ''Groceries'') None))
          (Some ''Chores'') None))
       (Inr [\<lparr>note_id = 1, note_title = ''Groceries'', note_content = Some [],
              created_at = 100, updated_at = 100\<rparr>,
             \<lparr>note_id = 2, note_title = ''Chores'', note_content = Some [],
              created_at = 100, updated_at = 100\<rparr>])
   \<and> all_notes_sorted
       (fst (post_notes None 100 100700 100701
          (fst (post_notes None 100 100250 100251 empty_db (Some ''Groceries'') None))
          (Some ''Chores'') None))
     = [\<lparr>note_id = 1, note_title = ''Groceries'', note_content = Some [],
              created_at = 100, updated_at = 100\<rparr>,
             \<lparr>note_id = 2, note_title = ''Chores'', note_content = Some [],
              created_at = 100, updated_at = 100\<rparr>]
   \<and> get_notes
       (Inr [\<lparr>note_id = 1, note_title = ''Groceries'', note_content = Some [],
              created_at = 100, updated_at = 100\<rparr>,
             \<lparr>note_id = 2, note_title = ''Chores'', note_content = Some [],
              created_at = 100, updated_at = 100\<rparr>])
     = Response 200 (Notes_body
         [\<lparr>j_id = 1, j_title = Some ''Groceries'', j_content = Some [],
           j_created_at = Sql_time 100, j_updated_at = Sql_time 100\<rparr>,
          \<lparr>j_id = 2, j_title = Some ''Chores'', j_content = Some [],
           j_created_at = Sql_time 100, j_updated_at = Sql_time 100\<rparr>])"
  by (simp add: post_notes_def falsy_def or_else_def sql_insert_def empty_db_def next_id_def
      sql_all_def order_by_updated_at_desc_def all_notes_sorted_def get_notes_def row_json_def)

subsection \<open>The title of a stored note\<close>

text \<open>
  C9. If every row of the table has a non-empty title, then so has every row after any
  sequence of List, Get, Create, Update and Delete requests, whatever their arguments,
  the clock and the errors the store reports; in particular this holds for every table
  reached from the empty table. The title column cannot hold NULL (its type is a string),
  and Create and Update write a title only after the check \<open>!title\<close> has let it pass.
\<close>

theorem stored_titles_nonempty:
  "(titles_nonempty d \<longrightarrow> titles_nonempty (run steps d))
   \<and> titles_nonempty (run steps empty_db)"
proof -
  have step: "titles_nonempty d \<Longrightarrow> titles_nonempty (run steps d)" for d
  proof (induction steps arbitrary: d)
    case Nil
    then show ?case by simp
  next
    case (Cons s steps)
    then show ?case by (cases s) (simp add: titles_next_db)
  qed
  moreover have "titles_nonempty empty_db"
    by (simp add: titles_nonempty_def empty_db_def)
  ultimately show ?thesis by blast
qed

theorem stored_titles_nonempty_witness:
  "titles_nonempty
     \<lparr>rows = [\<lparr>note_id = 1, note_title = ''Groceries'', note_content = Some [],
               created_at = 100, updated_at = 100\<rparr>], seq = 1\<rparr>
   \<and> run [(\<lparr>env_fault1 = None, env_fault2 = None, env_now = 101, env_js_now1 = 101250,
             env_js_now2 = 101251\<rparr>, Create_note (Some []) (Some ''no title'')),
           (\<lparr>env_fault1 = None, env_fault2 = None, env_now = 102, env_js_now1 = 102250,
             env_js_now2 = 102251\<rparr>, Create_note (Some ''Chores'') None),
           (\<lparr>env_fault1 = None, env_fault2 = None, env_now = 103, env_js_now1 = 103250,
             env_js_now2 = 103251\<rparr>, Update_note 1 None (Some ''milk'')),
           (\<lparr>env_fault1 = None, env_fault2 = None, env_now = 104, env_js_now1 = 104250,
             env_js_now2 = 104251\<rparr>, Update_note 2 (Some ''Chores v2'') None),
           (\<lparr>env_fault1 = None, env_fault2 = None, env_now = 105, env_js_now1 = 105250,
             env_js_now2 = 105251\<rparr>, List_notes),
           (\<lparr>env_fault1 = None, env_fault2 = None, env_now = 106, env_js_now1 = 106250,
             env_js_now2 = 106251\<rparr>, Delete_note 1)]
       \<lparr>rows = [\<lparr>note_id = 1, note_title = ''Groceries'', note_content = Some [],
                 created_at = 100, updated_at = 100\<rparr>], seq = 1\<rparr>
     = \<lparr>rows = [\<lparr>note_id = 2, note_title = ''Chores v2'', note_content = Some [],
                 created_at = 102, updated_at = 104\<rparr>], seq = 2\<rparr>
   \<and> titles_nonempty
       \<lparr>rows = [\<lparr>note_id = 2, note_title = ''Chores v2'', note_content = Some [],
                 created_at = 102, updated_at = 104\<rparr>], seq = 2\<rparr>"
proof -
  have start: "titles_nonempty
     \<lparr>rows = [\<lparr>note_id = 1, note_title = ''Groceries'', note_content = Some [],
               created_at = 100, updated_at = 100\<rparr>], seq = 1\<rparr>"
    by (simp add: titles_nonempty_def)
  have steps: "run [(\<lparr>env_fault1 = None, env_fault2 = None, env_now = 101, env_js_now1 = 101250,
             env_js_now2 = 101251\<rparr>, Create_note (Some []) (Some ''no title'')),
           (\<lparr>env_fault1 = None, env_fault2 = None, env_now = 102, env_js_now1 = 102250,
             env_js_now2 = 102251\<rparr>, Create_note (Some ''Chores'') None),
           (\<lparr>env_fault1 = None, env_fault2 = None, env_now = 103, env_js_now1 = 103250,
             env_js_now2 = 103251\<rparr>, Update_note 1 None (Some ''milk'')),
           (\<lparr>env_fault1 = None, env_fault2 = None, env_now = 104, env_js_now1 = 104250,
             env_js_now2 = 104251\<rparr>, Update_note 2 (Some ''Chores v2'') None),
           (\<lparr>env_fault1 = None, env_fault2 = None, env_now = 105, env_js_now1 = 105250,
             env_js_now2 = 105251\<rparr>, List_notes),
           (\<lparr>env_fault1 = None, env_fault2 = None, env_now = 106, env_js_now1 = 106250,
             env_js_now2 = 106251\<rparr>, Delete_note 1)]
       \<lparr>rows = [\<lparr>note_id = 1, note_title = ''Groceries'', note_content = Some [],
                 created_at = 100, updated_at = 100\<rparr>], seq = 1\<rparr>
     = \<lparr>rows = [\<lparr>note_id = 2, note_title = ''Chores v2'', note_content = Some [],
                 created_at = 102, updated_at = 104\<rparr>], seq = 2\<rparr>"
    by (simp add: post_notes_def put_note_def delete_note_def falsy_def or_else_def
        sql_insert_def sql_update_def sql_delete_def sql_get_def next_id_def)
  from start steps
    stored_titles_nonempty [where
      d = "\<lparr>rows = [\<lparr>note_id = 1, note_title = ''Groceries'', note_content = Some [],
                 created_at = 100, updated_at = 100\<rparr>], seq = 1\<rparr>"
      and steps = "[(\<lparr>env_fault1 = None, env_fault2 = None, env_now = 101, env_js_now1 = 101250,
             env_js_now2 = 101251\<rparr>, Create_note (Some []) (Some ''no title'')),
           (\<lparr>env_fault1 = None, env_fault2 = None, env_now = 102, env_js_now1 = 102250,
             env_js_now2 = 102251\<rparr>, Create_note (Some ''Chores'') None),
           (\<lparr>env_fault1 = None, env_fault2 = None, env_now = 103, env_js_now1 = 103250,
             env_js_now2 = 103251\<rparr>, Update_note 1 None (Some ''milk'')),
           (\<lparr>env_fault1 = None, env_fault2 = None, env_now = 104, env_js_now1 = 104250,
             env_js_now2 = 104251\<rparr>, Update_note 2 (Some ''Chores v2'') None),
           (\<lparr>env_fault1 = None, env_fault2 = None, env_now = 105, env_js_now1 = 105250,
             env_js_now2 = 105251\<rparr>, List_notes),
           (\<lparr>env_fault1 = None, env_fault2 = None, env_now = 106, env_js_now1 = 106250,
             env_js_now2 = 106251\<rparr>, Delete_note 1)]"]
  show ?thesis by simp
qed

section \<open>Properties of the summarize route\<close>

subsection \<open>Auxiliary facts\<close>

lemma trim_blank:
  assumes "\<forall>c \<in> set t. is_space c"
  shows "trim t = []"
proof -
  from assms have d: "dropWhile is_space t = []" by simp
  show ?thesis unfolding trim_def d by simp
qed

lemma trim_not_blank:
  assumes "\<exists>c \<in> set t. \<not> is_space c"
  shows "trim t \<noteq> []"
proof -
  from assms have "dropWhile is_space t \<noteq> []" by simp
  then obtain x xs where d: "dropWhile is_space t = x # xs"
    by (cases "dropWhile is_space t") auto
  then have "\<not> is_space x"
    using hd_dropWhile [of is_space t] by (metis list.sel(1) list.simps(3))
  then have "\<exists>c \<in> set (rev (dropWhile is_space t)). \<not> is_space c"
    using d by auto
  then have "dropWhile is_space (rev (dropWhile is_space t)) \<noteq> []"
    by simp
  then show ?thesis by (simp add: trim_def)
qed




subsection \<open>Validation of the text\<close>

text \<open>
  C6. A Summarize request whose text is missing, empty, or made of whitespace only
  answers 400 \<open>Text is required for summarization\<close> and makes no outbound request,
  whatever the configuration and the upstream API are.
\<close>

theorem summarize_rejects_blank_text:
  "body_text = None \<or> body_text = Some t \<and> (\<forall>c \<in> set t. is_space c) \<Longrightarrow>
   summarize cfg fetch body_text =
     (Response 400 (Error_body ''Text is required for summarization'' None), [])"
  by (auto simp: summarize_def trim_blank)

theorem summarize_rejects_blank_text_witness:
  "(is_space CHR '' '' \<and> is_space CHR 0x09 \<and> is_space CHR 0x0A)
   \<and> summarize
        \<lparr>env_XAI_API_URL = None, env_XAI_API_KEY = Some ''xai-key'', env_NODE_ENV = None\<rparr>
        (\<lambda>rq. Ok_content ''A summary.'') (Some [CHR '' '', CHR 0x09, CHR 0x0A, CHR '' ''])
     = (Response 400 (Error_body ''Text is required for summarization'' None), [])
   \<and> summarize
        \<lparr>env_XAI_API_URL = None, env_XAI_API_KEY = Some ''xai-key'', env_NODE_ENV = None\<rparr>
        (\<lambda>rq. Ok_content ''A summary.'') None
     = (Response 400 (Error_body ''Text is required for summarization'' None), [])"
proof -
  have sp: "is_space CHR '' '' \<and> is_space CHR 0x09 \<and> is_space CHR 0x0A"
    by (simp add: is_space_def)
  then have blank: "\<forall>c \<in> set [CHR '' '', CHR 0x09, CHR 0x0A, CHR '' '']. is_space c"
    by simp
  from sp blank
    summarize_rejects_blank_text [where body_text = "Some [CHR '' '', CHR 0x09, CHR 0x0A, CHR '' '']"
      and t = "[CHR '' '', CHR 0x09, CHR 0x0A, CHR '' '']"
      and cfg = "\<lparr>env_XAI_API_URL = None, env_XAI_API_KEY = Some ''xai-key'',
                 env_NODE_ENV = None\<rparr>"
      and fetch = "\<lambda>rq. Ok_content ''A summary.''"]
    summarize_rejects_blank_text [where body_text = None
      and cfg = "\<lparr>env_XAI_API_URL = None, env_XAI_API_KEY = Some ''xai-key'',
                 env_NODE_ENV = None\<rparr>"
      and fetch = "\<lambda>rq. Ok_content ''A summary.''"]
  show ?thesis by simp
qed

subsection \<open>The credential\<close>

text \<open>
  C7, as amended. When \<open>XAI_API_KEY\<close> is unset (or empty), a Summarize request makes
  no outbound request whatever its text is, and answers 400 or 500; when its text is not
  empty after trimming (it has a character that is not whitespace), the answer is 500
  with the message that the key is not configured.
\<close>

theorem summarize_requires_api_key:
  assumes "env_XAI_API_KEY cfg = None \<or> env_XAI_API_KEY cfg = Some []"
  shows "snd (summarize cfg fetch body_text) = []
     \<and> (status (fst (summarize cfg fetch body_text)) = 400 \<or>
        status (fst (summarize cfg fetch body_text)) = 500)
     \<and> (body_text = Some t \<and> (\<exists>c \<in> set t. \<not> is_space c) \<longrightarrow>
          summarize cfg fetch body_text =
            (Response 500 (Error_body
               ''xAI API key not configured. Please set XAI_API_KEY in your .env file.''
               None), []))"
proof (intro conjI impI)
  show "snd (summarize cfg fetch body_text) = []"
    using assms by (auto simp: summarize_def XAI_API_KEY_def split: option.splits)
next
  show "status (fst (summarize cfg fetch body_text)) = 400 \<or>
        status (fst (summarize cfg fetch body_text)) = 500"
    using assms by (auto simp: summarize_def XAI_API_KEY_def split: option.splits)
next
  assume a: "body_text = Some t \<and> (\<exists>c \<in> set t. \<not> is_space c)"
  then have "trim t \<noteq> []" "t \<noteq> []" using trim_not_blank by auto
  with a assms show "summarize cfg fetch body_text =
            (Response 500 (Error_body
               ''xAI API key not configured. Please set XAI_API_KEY in your .env file.''
               None), [])"
    by (auto simp: summarize_def XAI_API_KEY_def)
qed

theorem summarize_requires_api_key_witness:
  "\<not> is_space CHR ''n''
   \<and> summarize
        \<lparr>env_XAI_API_URL = None, env_XAI_API_KEY = None, env_NODE_ENV = None\<rparr>
        (upstream_always (Ok_content ''A summary.'')) (Some ''notes'')
     = (Response 500 (Error_body
          ''xAI API key not configured. Please set XAI_API_KEY in your .env file.'' None), [])"
proof -
  have n: "\<not> is_space CHR ''n''"
    by (simp add: is_space_def)
  then have "\<exists>c \<in> set ''notes''. \<not> is_space c"
    by simp
  with n
    summarize_requires_api_key [where body_text = "Some ''notes''" and t = "''notes''"
      and cfg = "\<lparr>env_XAI_API_URL = None, env_XAI_API_KEY = None, env_NODE_ENV = None\<rparr>"
      and fetch = "upstream_always (Ok_content ''A summary.'')"]
  show ?thesis by simp
qed

text \<open>
  The claim as stated fails: the text is checked before the key. A text of one space is
  not empty, and with no key the answer is the 400 of the text validation, not the 500
  of the missing key.
\<close>

theorem summarize_blank_text_without_key_counterexample:
  "summarize
     \<lparr>env_XAI_API_URL = None, env_XAI_API_KEY = None, env_NODE_ENV = None\<rparr>
     (upstream_always (Ok_content ''A summary.'')) (Some '' '')
   = (Response 400 (Error_body ''Text is required for summarization'' None), [])"
  by (simp add: summarize_def trim_def is_space_def)

subsection \<open>Failures of the upstream API\<close>




section \<open>Titles made of whitespace\<close>

text \<open>
  C10. The check of the title in Create and in Update is \<open>!title\<close>: it rejects a
  missing title and the empty string, and nothing else, and the title is not trimmed.
  So for a title that is not empty and is made of whitespace only (a single space, say),
  a Create stores a note with exactly that title and answers 200, and an Update of an
  existing note stores exactly that title and answers 200 (when the store reports no
  error), while a Summarize request with the same string as its text answers 400, since
  that handler trims the text before the check.
\<close>

theorem whitespace_title_accepted:
  assumes "t \<noteq> []" and "\<forall>c \<in> set t. is_space c"
  shows "(falsy title \<longleftrightarrow> title = None \<or> title = Some [])
   \<and> post_notes None now js_first js_second d (Some t) content =
       (\<lparr>rows = rows d @
           [\<lparr>note_id = next_id d, note_title = t,
             note_content = Some (case content of None \<Rightarrow> [] | Some c \<Rightarrow> c),
             created_at = now, updated_at = now\<rparr>],
         seq = next_id d\<rparr>,
        Response 200 (Note_body
          \<lparr>j_id = next_id d, j_title = Some t,
           j_content = Some (case content of None \<Rightarrow> [] | Some c \<Rightarrow> c),
           j_created_at = Iso_time js_first, j_updated_at = Iso_time js_second\<rparr>))
   \<and> (find (\<lambda>r. note_id r = i) (rows d) = Some r \<longrightarrow>
        put_note None None now d i (Some t) content =
          (d\<lparr>rows :=
               map (\<lambda>r. if note_id r = i
                         then r\<lparr>note_title := t,
                                note_content := Some (case content of None \<Rightarrow> [] | Some c \<Rightarrow> c),
                                updated_at := now\<rparr>
                         else r) (rows d)\<rparr>,
           Response 200 (Note_body (row_json
             (r\<lparr>note_title := t,
                note_content := Some (case content of None \<Rightarrow> [] | Some c \<Rightarrow> c),
                updated_at := now\<rparr>)))))
   \<and> summarize cfg fetch (Some t) =
       (Response 400 (Error_body ''Text is required for summarization'' None), [])"
proof (intro conjI impI)
  show "falsy title \<longleftrightarrow> title = None \<or> title = Some []"
    by (rule falsy_iff)
next
  from assms(1) show "post_notes None now js_first js_second d (Some t) content =
       (\<lparr>rows = rows d @
           [\<lparr>note_id = next_id d, note_title = t,
             note_content = Some (case content of None \<Rightarrow> [] | Some c \<Rightarrow> c),
             created_at = now, updated_at = now\<rparr>],
         seq = next_id d\<rparr>,
        Response 200 (Note_body
          \<lparr>j_id = next_id d, j_title = Some t,
           j_content = Some (case content of None \<Rightarrow> [] | Some c \<Rightarrow> c),
           j_created_at = Iso_time js_first, j_updated_at = Iso_time js_second\<rparr>))"
    by (simp add: post_notes_inserts or_else_empty)
next
  assume "find (\<lambda>r. note_id r = i) (rows d) = Some r"
  with assms(1) show "put_note None None now d i (Some t) content =
          (d\<lparr>rows :=
               map (\<lambda>r. if note_id r = i
                         then r\<lparr>note_title := t,
                                note_content := Some (case content of None \<Rightarrow> [] | Some c \<Rightarrow> c),
                                updated_at := now\<rparr>
                         else r) (rows d)\<rparr>,
           Response 200 (Note_body (row_json
             (r\<lparr>note_title := t,
                note_content := Some (case content of None \<Rightarrow> [] | Some c \<Rightarrow> c),
                updated_at := now\<rparr>))))"
    using put_note_found [of t i d r now content] by (simp add: or_else_empty)
next
  from assms(2) show "summarize cfg fetch (Some t) =
       (Response 400 (Error_body ''Text is required for summarization'' None), [])"
    by (simp add: summarize_def trim_blank)
qed

theorem whitespace_title_accepted_witness:
  "'' '' \<noteq> [] \<and> is_space CHR '' ''
   \<and> post_notes None 160 160250 160251
       \<lparr>rows = [\<lparr>note_id = 1, note_title = ''Groceries'', note_content = Some ''milk'',
                 created_at = 100, updated_at = 100\<rparr>], seq = 1\<rparr>
       (Some '' '') None =
       (\<lparr>rows = [\<lparr>note_id = 1, note_title = ''Groceries'', note_content = Some ''milk'',
                  created_at = 100, updated_at = 100\<rparr>,
                 \<lparr>note_id = 2, note_title = '' '', note_content = Some [],
                  created_at = 160, updated_at = 160\<rparr>], seq = 2\<rparr>,
        Response 200 (Note_body
          \<lparr>j_id = 2, j_title = Some '' '', j_content = Some [],
           j_created_at = Iso_time 160250, j_updated_at = Iso_time 160251\<rparr>))
   \<and> find (\<lambda>r. note_id r = 1)
        [\<lparr>note_id = 1, note_title = ''Groceries'', note_content = Some ''milk'',
          created_at = 100, updated_at = 100\<rparr>]
     = Some \<lparr>note_id = 1, note_title = ''Groceries'', note_content = Some ''milk'',
             created_at = 100, updated_at = 100\<rparr>
   \<and> put_note None None 160
       \<lparr>rows = [\<lparr>note_id = 1, note_title = ''Groceries'', note_content = Some ''milk'',
                 created_at = 100, updated_at = 100\<rparr>], seq = 1\<rparr>
       1 (Some '' '') None =
       (\<lparr>rows = [\<lparr>note_id = 1, note_title = '' '', note_content = Some [],
                  created_at = 100, updated_at = 160\<rparr>], seq = 1\<rparr>,
        Response 200 (Note_body
          \<lparr>j_id = 1, j_title = Some '' '', j_content = Some [],
           j_created_at = Sql_time 100, j_updated_at = Sql_time 160\<rparr>))
   \<and> summarize
        \<lparr>env_XAI_API_URL = None, env_XAI_API_KEY = Some ''xai-key'', env_NODE_ENV = None\<rparr>
        (upstream_always (Ok_content ''A summary.'')) (Some '' '')
     = (Response 400 (Error_body ''Text is required for summarization'' None), [])"
proof -
  have ne: "'' '' \<noteq> []"
    by simp
  have sp: "is_space CHR '' ''"
    by (simp add: is_space_def)
  then have blank: "\<forall>c \<in> set '' ''. is_space c"
    by simp
  have row: "find (\<lambda>r. note_id r = 1)
        (rows \<lparr>rows = [\<lparr>note_id = 1, note_title = ''Groceries'', note_content = Some ''milk'',
                 created_at = 100, updated_at = 100\<rparr>], seq = 1\<rparr>)
     = Some \<lparr>note_id = 1, note_title = ''Groceries'', note_content = Some ''milk'',
             created_at = 100, updated_at = 100\<rparr>"
    by simp
  from ne sp row
    whitespace_title_accepted [OF ne blank, where now = 160 and js_first = 160250
      and js_second = 160251 and content = None and i = 1
      and d = "\<lparr>rows = [\<lparr>note_id = 1, note_title = ''Groceries'',
                 note_content = Some ''milk'', created_at = 100, updated_at = 100\<rparr>],
               seq = 1\<rparr>"
      and r = "\<lparr>note_id = 1, note_title = ''Groceries'', note_content = Some ''milk'',
             created_at = 100, updated_at = 100\<rparr>"
      and cfg = "\<lparr>env_XAI_API_URL = None, env_XAI_API_KEY = Some ''xai-key'',
                 env_NODE_ENV = None\<rparr>"
      and fetch = "upstream_always (Ok_content ''A summary.'')"]
  show ?thesis
    by (simp add: next_id_def row_json_def)
qed

end
